theory Spec2Isabelle
  imports Main "HOL-Library.Sublist"
begin

section \<open>The question wizard (QuestionModal)\<close>

text \<open>
  The React component \<open>QuestionModal\<close> keeps three pieces of state: \<open>currentStep\<close>,
  \<open>answers\<close> (per step, the list of selected labels in the order of selection) and
  \<open>otherInputs\<close> (per step, the free text of the "Other" field). Each event handler is
  modelled as a function from the rendered state to the state after the handler's
  \<open>setState\<close> calls. A JavaScript string is a \<open>string\<close>, one \<open>char\<close> standing for
  one code unit below 256.
\<close>

record QuestionOption =
  label :: string
  description :: string

record Question =
  question :: string
  header :: string
  options :: "QuestionOption list"
  multiSelect :: bool

record modal =
  currentStep :: nat
  answers :: "nat \<rightharpoonup> string list"
  otherInputs :: "nat \<rightharpoonup> string"

text \<open>Reading a property of \<open>undefined\<close> throws a TypeError.\<close>

datatype js_error = TypeError

text \<open>The initial values given to \<open>useState\<close>.\<close>

definition initialModal :: modal where
  "initialModal = \<lparr>currentStep = 0, answers = Map.empty, otherInputs = Map.empty\<rparr>"

text \<open>The reserved label \<open>'__other__'\<close>.\<close>

definition OTHER :: string where
  "OTHER = ''__other__''"

text \<open>\<open>questions[currentStep]\<close>, which is \<open>undefined\<close> out of range.\<close>

definition currentQuestion :: "Question list \<Rightarrow> modal \<Rightarrow> Question option" where
  "currentQuestion questions st =
     (if currentStep st < length questions then Some (questions ! currentStep st) else None)"

text \<open>\<open>currentStep === questions.length - 1\<close> and \<open>currentStep === 0\<close>.\<close>

definition isLastStep :: "Question list \<Rightarrow> modal \<Rightarrow> bool" where
  "isLastStep questions st \<longleftrightarrow> int (currentStep st) = int (length questions) - 1"

definition isFirstStep :: "modal \<Rightarrow> bool" where
  "isFirstStep st \<longleftrightarrow> currentStep st = 0"

text \<open>\<open>answers[idx] || []\<close> and \<open>otherInputs[idx] || ''\<close>.\<close>

definition stepAnswers :: "modal \<Rightarrow> nat \<Rightarrow> string list" where
  "stepAnswers st idx = (case answers st idx of None \<Rightarrow> [] | Some xs \<Rightarrow> xs)"

definition otherText :: "modal \<Rightarrow> nat \<Rightarrow> string" where
  "otherText st idx = (case otherInputs st idx of None \<Rightarrow> [] | Some t \<Rightarrow> t)"

definition handleOptionSelect :: "Question list \<Rightarrow> string \<Rightarrow> modal \<Rightarrow> js_error + modal" where
  "handleOptionSelect questions optionLabel st =
     (case currentQuestion questions st of
        None \<Rightarrow> Inl TypeError
      | Some q \<Rightarrow>
          if multiSelect q then
            (let currentAnswers = stepAnswers st (currentStep st) in
             if optionLabel \<in> set currentAnswers then
               Inr (st\<lparr>answers := (answers st)(currentStep st \<mapsto>
                      filter (\<lambda>a. a \<noteq> optionLabel) currentAnswers)\<rparr>)
             else
               Inr (st\<lparr>answers := (answers st)(currentStep st \<mapsto>
                      filter (\<lambda>a. a \<noteq> OTHER) currentAnswers @ [optionLabel])\<rparr>))
          else
            Inr (st\<lparr>answers := (answers st)(currentStep st \<mapsto> [optionLabel]),
                    otherInputs := (otherInputs st)(currentStep st \<mapsto> [])\<rparr>))"

definition handleOtherSelect :: "Question list \<Rightarrow> modal \<Rightarrow> js_error + modal" where
  "handleOtherSelect questions st =
     (case currentQuestion questions st of
        None \<Rightarrow> Inl TypeError
      | Some q \<Rightarrow>
          if multiSelect q then
            (let currentAnswers = stepAnswers st (currentStep st) in
             if OTHER \<in> set currentAnswers then
               Inr (st\<lparr>answers := (answers st)(currentStep st \<mapsto>
                      filter (\<lambda>a. a \<noteq> OTHER) currentAnswers)\<rparr>)
             else
               Inr (st\<lparr>answers := (answers st)(currentStep st \<mapsto>
                      currentAnswers @ [OTHER])\<rparr>))
          else
            Inr (st\<lparr>answers := (answers st)(currentStep st \<mapsto> [OTHER])\<rparr>))"

definition handleOtherInputChange :: "string \<Rightarrow> modal \<Rightarrow> modal" where
  "handleOtherInputChange v st = st\<lparr>otherInputs := (otherInputs st)(currentStep st \<mapsto> v)\<rparr>"

text \<open>
  \<open>String.prototype.trim\<close> removes the white space and line terminators of ECMAScript
  from both ends; below 256 these are TAB, LF, VT, FF, CR, SPACE and NO-BREAK SPACE.
\<close>

definition isWhiteSpace :: "char \<Rightarrow> bool" where
  "isWhiteSpace c \<longleftrightarrow> of_char c \<in> {9, 10, 11, 12, 13, 32, 160 :: nat}"

definition trim :: "string \<Rightarrow> string" where
  "trim s = rev (dropWhile isWhiteSpace (rev (dropWhile isWhiteSpace s)))"

text \<open>
  \<open>!otherInputs[currentStep]?.trim()\<close>: true when the entry is \<open>undefined\<close> and when
  its trimmed value is the empty string.
\<close>

definition canProceed :: "modal \<Rightarrow> bool" where
  "canProceed st =
     (let currentAnswers = stepAnswers st (currentStep st) in
      if length currentAnswers = 0 then False
      else if OTHER \<in> set currentAnswers \<and>
              (case otherInputs st (currentStep st) of None \<Rightarrow> True | Some t \<Rightarrow> trim t = [])
           then False
      else True)"

text \<open>\<open>Array.prototype.join\<close>.\<close>

fun join :: "string \<Rightarrow> string list \<Rightarrow> string" where
  "join sep [] = []"
| "join sep [x] = x"
| "join sep (x # y # ys) = x @ sep @ join sep (y # ys)"

text \<open>
  The body of the \<open>forEach\<close> callback of \<open>handleNext\<close>: \<open>answerList\<close> is the mapped and
  filtered list (\<open>filter(Boolean)\<close> drops the empty strings), \<open>stepAnswer\<close> the joined
  value stored under the question's header.
\<close>

definition answerList :: "modal \<Rightarrow> nat \<Rightarrow> string list" where
  "answerList st idx =
     filter (\<lambda>s. s \<noteq> [])
       (map (\<lambda>a. if a = OTHER then otherText st idx else a) (stepAnswers st idx))"

definition stepAnswer :: "modal \<Rightarrow> nat \<Rightarrow> string" where
  "stepAnswer st idx = join '', '' (answerList st idx)"

text \<open>
  \<open>finalAnswers[q.header] = v\<close> on the object literal \<open>{}\<close>. The object is a finite map
  from property names to values. The name \<open>__proto__\<close> is the inherited accessor of
  \<open>Object.prototype\<close>, whose setter ignores a value that is neither an object nor
  \<open>null\<close>: assigning a string to it creates no property.
\<close>

definition setProperty :: "(string \<rightharpoonup> string) \<Rightarrow> string \<Rightarrow> string \<Rightarrow> (string \<rightharpoonup> string)" where
  "setProperty obj k v = (if k = ''__proto__'' then obj else obj(k \<mapsto> v))"

text \<open>\<open>questions.forEach((q, idx) => ...)\<close>, started at index \<open>idx\<close>.\<close>

fun collectAnswers :: "modal \<Rightarrow> Question list \<Rightarrow> nat \<Rightarrow> (string \<rightharpoonup> string) \<Rightarrow> (string \<rightharpoonup> string)" where
  "collectAnswers st [] idx finalAnswers = finalAnswers"
| "collectAnswers st (q # qs) idx finalAnswers =
     collectAnswers st qs (Suc idx) (setProperty finalAnswers (header q) (stepAnswer st idx))"

definition finalAnswers :: "Question list \<Rightarrow> modal \<Rightarrow> (string \<rightharpoonup> string)" where
  "finalAnswers questions st = collectAnswers st questions 0 Map.empty"

text \<open>
  \<open>handleNext\<close> returns the new state and, when it submits, the arguments of the call
  \<open>onSubmit(toolId, finalAnswers)\<close>.
\<close>

definition handleNext :: "Question list \<Rightarrow> string \<Rightarrow> modal \<Rightarrow> modal \<times> (string \<times> (string \<rightharpoonup> string)) option" where
  "handleNext questions toolId st =
     (if isLastStep questions st then (st, Some (toolId, finalAnswers questions st))
      else (st\<lparr>currentStep := currentStep st + 1\<rparr>, None))"

definition handleBack :: "modal \<Rightarrow> modal" where
  "handleBack st = (if \<not> isFirstStep st then st\<lparr>currentStep := currentStep st - 1\<rparr> else st)"

text \<open>
  The Next/Submit button carries \<open>onClick={handleNext}\<close> and
  \<open>disabled={!canProceed()}\<close>: a click on a disabled button runs no handler.
\<close>

definition clickNext :: "Question list \<Rightarrow> string \<Rightarrow> modal \<Rightarrow> modal \<times> (string \<times> (string \<rightharpoonup> string)) option" where
  "clickNext questions toolId st =
     (if canProceed st then handleNext questions toolId st else (st, None))"

text \<open>
  A sequence of user actions, run from a state; an exception thrown by a handler ends
  the run. What \<open>handleNext\<close> hands to \<open>onSubmit\<close> does not change the state.
\<close>

datatype action =
    SelectOption string
  | SelectOther
  | OtherInput string
  | Next
  | Back

fun perform :: "Question list \<Rightarrow> string \<Rightarrow> action \<Rightarrow> modal \<Rightarrow> js_error + modal" where
  "perform questions toolId (SelectOption l) st = handleOptionSelect questions l st"
| "perform questions toolId SelectOther st = handleOtherSelect questions st"
| "perform questions toolId (OtherInput v) st = Inr (handleOtherInputChange v st)"
| "perform questions toolId Next st = Inr (fst (clickNext questions toolId st))"
| "perform questions toolId Back st = Inr (handleBack st)"

fun performAll :: "Question list \<Rightarrow> string \<Rightarrow> action list \<Rightarrow> modal \<Rightarrow> js_error + modal" where
  "performAll questions toolId [] st = Inr st"
| "performAll questions toolId (a # as) st =
     (case perform questions toolId a st of
        Inl e \<Rightarrow> Inl e
      | Inr st' \<Rightarrow> performAll questions toolId as st')"

section \<open>The pending-question table and the AskUserQuestion handler\<close>

text \<open>
  The module state of \<open>askUserQuestion.ts\<close> is the map \<open>pendingQuestions\<close> and the
  variable \<open>globalQuestionCallback\<close>. Every invocation of the tool handler that reaches
  the \<open>await\<close> creates two promises and their \<open>Promise.race\<close>; invocations are
  numbered in the order of their creation (\<open>nextCall\<close>), and a table entry, which holds
  the \<open>resolve\<close> and \<open>reject\<close> functions of the first promise, is the number of the
  invocation that stored it. \<open>timers\<close> holds the timers that are scheduled and have not
  fired, each with the \<open>toolId\<close> its callback has captured; \<open>suspended\<close> holds the
  invocations waiting at the \<open>await\<close>, \<open>returned\<close> what the finished ones returned,
  and \<open>notified\<close> the calls made to the registered callback. An answer set is the list
  of entries of the object, in the order of \<open>Object.entries\<close>.
\<close>

type_synonym answerSet = "(string \<times> string) list"

datatype 'a promise = Pending | Fulfilled 'a | Rejected string

record toolResult =
  resultText :: string
  isError :: bool

record server =
  pendingQuestions :: "string \<rightharpoonup> nat"
  globalQuestionCallback :: "nat option"
  notified :: "(nat \<times> string \<times> Question list \<times> string) list"
  nextCall :: nat
  answerPromise :: "nat \<Rightarrow> answerSet promise"
  timeoutPromise :: "nat \<Rightarrow> unit promise"
  race :: "nat \<Rightarrow> answerSet promise"
  timers :: "nat \<rightharpoonup> string"
  suspended :: "nat \<rightharpoonup> string"
  returned :: "nat \<rightharpoonup> toolResult"

definition initialServer :: server where
  "initialServer = \<lparr>pendingQuestions = Map.empty, globalQuestionCallback = None,
     notified = [], nextCall = 0, answerPromise = (\<lambda>_. Pending),
     timeoutPromise = (\<lambda>_. Pending), race = (\<lambda>_. Pending), timers = Map.empty,
     suspended = Map.empty, returned = Map.empty\<rparr>"

definition setQuestionCallback :: "nat \<Rightarrow> server \<Rightarrow> server" where
  "setQuestionCallback callback st = st\<lparr>globalQuestionCallback := Some callback\<rparr>"

text \<open>
  A promise settles once: \<open>resolve\<close> and \<open>reject\<close> on a settled promise do nothing, and
  \<open>Promise.race\<close> takes the outcome of the first of its promises to settle.
\<close>

definition settleRace :: "nat \<Rightarrow> answerSet promise \<Rightarrow> server \<Rightarrow> server" where
  "settleRace c outcome st =
     (if race st c = Pending then st\<lparr>race := (race st)(c := outcome)\<rparr> else st)"

definition resolveAnswer :: "nat \<Rightarrow> answerSet \<Rightarrow> server \<Rightarrow> server" where
  "resolveAnswer c a st =
     (if answerPromise st c = Pending
      then settleRace c (Fulfilled a) (st\<lparr>answerPromise := (answerPromise st)(c := Fulfilled a)\<rparr>)
      else st)"

definition rejectAnswer :: "nat \<Rightarrow> string \<Rightarrow> server \<Rightarrow> server" where
  "rejectAnswer c msg st =
     (if answerPromise st c = Pending
      then settleRace c (Rejected msg) (st\<lparr>answerPromise := (answerPromise st)(c := Rejected msg)\<rparr>)
      else st)"

definition rejectTimeout :: "nat \<Rightarrow> string \<Rightarrow> server \<Rightarrow> server" where
  "rejectTimeout c msg st =
     (if timeoutPromise st c = Pending
      then settleRace c (Rejected msg) (st\<lparr>timeoutPromise := (timeoutPromise st)(c := Rejected msg)\<rparr>)
      else st)"

definition answerQuestion :: "string \<Rightarrow> answerSet \<Rightarrow> server \<Rightarrow> bool \<times> server" where
  "answerQuestion toolId a st =
     (case pendingQuestions st toolId of
        Some c \<Rightarrow>
          (let st1 = resolveAnswer c a st in
           (True, st1\<lparr>pendingQuestions := (pendingQuestions st1)(toolId := None)\<rparr>))
      | None \<Rightarrow> (False, st))"

definition cancelQuestion :: "string \<Rightarrow> server \<Rightarrow> bool \<times> server" where
  "cancelQuestion toolId st =
     (case pendingQuestions st toolId of
        Some c \<Rightarrow>
          (let st1 = rejectAnswer c ''Question cancelled by user'' st in
           (True, st1\<lparr>pendingQuestions := (pendingQuestions st1)(toolId := None)\<rparr>))
      | None \<Rightarrow> (False, st))"

text \<open>
  The handler up to its \<open>await\<close>. The \<open>toolId\<close> is minted from the clock and the random
  number generator and is a parameter here. Without a callback the handler returns at
  once; otherwise it calls the callback, stores the entry with \<open>pendingQuestions.set\<close>,
  schedules the timer and suspends (no result yet).
\<close>

definition AskUserQuestion :: "string \<Rightarrow> string \<Rightarrow> Question list \<Rightarrow> server \<Rightarrow> toolResult option \<times> server" where
  "AskUserQuestion toolId sessionId questions st =
     (case globalQuestionCallback st of
        None \<Rightarrow> (Some \<lparr>resultText = ''Error: Question callback not configured'', isError = True\<rparr>, st)
      | Some callback \<Rightarrow>
          (let c = nextCall st in
           (None, st\<lparr>notified := notified st @ [(callback, toolId, questions, sessionId)],
                     nextCall := Suc c,
                     answerPromise := (answerPromise st)(c := Pending),
                     timeoutPromise := (timeoutPromise st)(c := Pending),
                     race := (race st)(c := Pending),
                     pendingQuestions := (pendingQuestions st)(toolId \<mapsto> c),
                     timers := (timers st)(c \<mapsto> toolId),
                     suspended := (suspended st)(c \<mapsto> toolId)\<rparr>)))"

text \<open>
  The callback given to \<open>setTimeout\<close> by invocation \<open>c\<close>: it deletes the entry of its
  \<open>toolId\<close> and rejects the second promise. The source keeps no handle of the timer and
  never calls \<open>clearTimeout\<close>; a timer leaves \<open>timers\<close> only by firing.
\<close>

definition timerFires :: "nat \<Rightarrow> server \<Rightarrow> server" where
  "timerFires c st =
     (case timers st c of
        None \<Rightarrow> st
      | Some toolId \<Rightarrow>
          rejectTimeout c ''Question timed out waiting for user response''
            (st\<lparr>timers := (timers st)(c := None),
                pendingQuestions := (pendingQuestions st)(toolId := None)\<rparr>))"

definition formattedAnswers :: "answerSet \<Rightarrow> string" where
  "formattedAnswers a = join [CHR 0x0A] (map (\<lambda>(h, v). h @ '': '' @ v) a)"

text \<open>
  The handler after its \<open>await\<close>: it continues once the race has settled, with the
  formatted answers or, in the \<open>catch\<close> block, with the deletion of the entry and the
  error result.
\<close>

definition resume :: "nat \<Rightarrow> server \<Rightarrow> server" where
  "resume c st =
     (case suspended st c of
        None \<Rightarrow> st
      | Some toolId \<Rightarrow>
          (case race st c of
             Pending \<Rightarrow> st
           | Fulfilled a \<Rightarrow>
               st\<lparr>suspended := (suspended st)(c := None),
                  returned := (returned st)(c \<mapsto>
                    \<lparr>resultText = ''User'' @ [CHR 0x27] @ ''s answers:'' @ [CHR 0x0A] @ formattedAnswers a,
                     isError = False\<rparr>)\<rparr>
           | Rejected msg \<Rightarrow>
               st\<lparr>pendingQuestions := (pendingQuestions st)(toolId := None),
                  suspended := (suspended st)(c := None),
                  returned := (returned st)(c \<mapsto> \<lparr>resultText = ''Error: '' @ msg, isError = True\<rparr>)\<rparr>))"

text \<open>
  The three events that can settle the request \<open>toolId\<close> of invocation \<open>c\<close>: a call of
  \<open>answerQuestion\<close>, a call of \<open>cancelQuestion\<close>, and the timer of \<open>c\<close> firing. Each runs
  to completion and is followed by the continuation of the awaiting handler. The result
  is the boolean returned by \<open>answerQuestion\<close> or \<open>cancelQuestion\<close>.
\<close>

datatype event = Answer answerSet | Cancel | Timeout

fun deliver :: "string \<Rightarrow> nat \<Rightarrow> event \<Rightarrow> server \<Rightarrow> bool option \<times> server" where
  "deliver toolId c (Answer a) st =
     (case answerQuestion toolId a st of (r, st') \<Rightarrow> (Some r, resume c st'))"
| "deliver toolId c Cancel st =
     (case cancelQuestion toolId st of (r, st') \<Rightarrow> (Some r, resume c st'))"
| "deliver toolId c Timeout st = (None, resume c (timerFires c st))"

section \<open>Notions used in the statements\<close>




text \<open>
  What an observer of the coordinator can see: the table, the outcome of each race, the
  suspended and the finished invocations, and the notifications sent.
\<close>

definition sameOutcome :: "server \<Rightarrow> server \<Rightarrow> bool" where
  "sameOutcome st st' \<longleftrightarrow>
     pendingQuestions st' = pendingQuestions st \<and> race st' = race st \<and>
     returned st' = returned st \<and> suspended st' = suspended st \<and> notified st' = notified st"

text \<open>
  Every event of the list, delivered in turn, is a no-op: \<open>answerQuestion\<close> and
  \<open>cancelQuestion\<close> do not return \<open>true\<close>, and nothing observable changes.
\<close>

fun inert :: "string \<Rightarrow> nat \<Rightarrow> event list \<Rightarrow> server \<Rightarrow> bool" where
  "inert toolId c [] st = True"
| "inert toolId c (e # es) st =
     (case deliver toolId c e st of
        (r, st') \<Rightarrow> r \<noteq> Some True \<and> sameOutcome st st' \<and> inert toolId c es st')"

definition settled :: "string \<Rightarrow> nat \<Rightarrow> server \<Rightarrow> bool" where
  "settled toolId c st \<longleftrightarrow>
     pendingQuestions st toolId = None \<and> race st c \<noteq> Pending \<and> suspended st c = None \<and>
     (timers st c = None \<or> timers st c = Some toolId)"

text \<open>The outcome each event gives to the race when it is the one that settles it.\<close>

definition outcomeOf :: "event \<Rightarrow> answerSet promise" where
  "outcomeOf e =
     (case e of
        Answer a \<Rightarrow> Fulfilled a
      | Cancel \<Rightarrow> Rejected ''Question cancelled by user''
      | Timeout \<Rightarrow> Rejected ''Question timed out waiting for user response'')"

subsection \<open>Example data\<close>

definition langQuestion :: Question where
  "langQuestion = \<lparr>question = ''Which language?'', header = ''Lang'',
     options = [\<lparr>label = ''A'', description = ''a''\<rparr>, \<lparr>label = ''B'', description = ''b''\<rparr>],
     multiSelect = False\<rparr>"

definition toolsQuestion :: Question where
  "toolsQuestion = \<lparr>question = ''Which tools?'', header = ''Tools'',
     options = [\<lparr>label = ''X'', description = ''x''\<rparr>, \<lparr>label = ''Y'', description = ''y''\<rparr>],
     multiSelect = True\<rparr>"

definition exampleActions :: "action list" where
  "exampleActions = [SelectOption ''A'', Next, SelectOption ''X'', SelectOption ''Y'',
     SelectOther, OtherInput ''Z'']"

definition exampleModal :: modal where
  "exampleModal = \<lparr>currentStep = 1,
     answers = [0 \<mapsto> [''A''], 1 \<mapsto> [''X'', ''Y'', ''__other__'']],
     otherInputs = [0 \<mapsto> [], 1 \<mapsto> ''Z'']\<rparr>"

text \<open>Two questions with the same header, and a question whose header is \<open>__proto__\<close>.\<close>

definition sameHeaderQuestions :: "Question list" where
  "sameHeaderQuestions = [langQuestion, langQuestion\<lparr>question := ''And then?''\<rparr>]"




text \<open>A step with only the sentinel selected and the free text \<open>" x "\<close>.\<close>

definition paddedModal :: modal where
  "paddedModal = \<lparr>currentStep = 0, answers = [0 \<mapsto> [''__other__'']],
     otherInputs = [0 \<mapsto> '' x '']\<rparr>"

definition blankModal :: modal where
  "blankModal = \<lparr>currentStep = 0, answers = [0 \<mapsto> [''__other__'']],
     otherInputs = [0 \<mapsto> ''  '']\<rparr>"

text \<open>
  The two questions with the same header, the first answered with the free text
  \<open>" x "\<close> and the second with the option \<open>B\<close>.
\<close>

definition paddedSameHeaderActions :: "action list" where
  "paddedSameHeaderActions = [SelectOther, OtherInput '' x '', Next, SelectOption ''B'']"

definition paddedSameHeaderModal :: modal where
  "paddedSameHeaderModal = \<lparr>currentStep = 1,
     answers = [0 \<mapsto> [''__other__''], 1 \<mapsto> [''B'']],
     otherInputs = [0 \<mapsto> '' x '', 1 \<mapsto> []]\<rparr>"

text \<open>
  A server with a callback registered; the same after one invocation with the id
  \<open>ask_1\<close>; and the latter after the answer has been delivered.
\<close>

definition readyServer :: server where
  "readyServer = setQuestionCallback 0 initialServer"

definition askedServer :: server where
  "askedServer = snd (AskUserQuestion ''ask_1'' ''session-1'' [langQuestion] readyServer)"

definition answeredServer :: server where
  "answeredServer = snd (deliver ''ask_1'' 0 (Answer [(''Lang'', ''A'')]) askedServer)"

section \<open>Auxiliary facts\<close>

subsection \<open>Trimming and joining\<close>

lemma trim_Nil: "trim [] = []"
  by (simp add: trim_def)

lemma trim_empty_iff: "trim s = [] \<longleftrightarrow> (\<forall>c \<in> set s. isWhiteSpace c)"
proof
  assume "trim s = []"
  then have all: "\<forall>x \<in> set (dropWhile isWhiteSpace s). isWhiteSpace x"
    by (simp add: trim_def dropWhile_eq_Nil_conv)
  have "dropWhile isWhiteSpace s = []"
  proof (rule ccontr)
    assume ne: "dropWhile isWhiteSpace s \<noteq> []"
    then have "\<not> isWhiteSpace (hd (dropWhile isWhiteSpace s))"
      by (rule hd_dropWhile)
    moreover have "hd (dropWhile isWhiteSpace s) \<in> set (dropWhile isWhiteSpace s)"
      using ne by simp
    ultimately show False using all by blast
  qed
  then show "\<forall>c \<in> set s. isWhiteSpace c"
    by (simp add: dropWhile_eq_Nil_conv)
next
  assume "\<forall>c \<in> set s. isWhiteSpace c"
  then show "trim s = []"
    by (auto simp: trim_def dest: set_dropWhileD)
qed

lemma trim_nonempty: "trim t \<noteq> [] \<Longrightarrow> t \<noteq> []"
  by (auto simp: trim_Nil)

lemma join_single_mem: "t \<in> set xs \<Longrightarrow> sublist t (join sep xs)"
proof (induction sep xs rule: join.induct)
  case (1 sep)
  then show ?case by simp
next
  case (2 sep x)
  then show ?case by simp
next
  case (3 sep x y ys)
  show ?case
  proof (cases "t = x")
    case True
    then show ?thesis by (simp add: sublist_append_rightI)
  next
    case False
    with 3 have "sublist t (join sep (y # ys))" by simp
    then obtain ps ss where "join sep (y # ys) = ps @ t @ ss"
      by (auto simp: sublist_def)
    then have "join sep (x # y # ys) = (x @ sep @ ps) @ t @ ss" by simp
    then show ?thesis unfolding sublist_def by blast
  qed
qed

subsection \<open>The collected answers\<close>

lemma collectAnswers_other:
  "h \<notin> set (map header qs) \<Longrightarrow> collectAnswers st qs k m h = m h"
  by (induction qs arbitrary: k m) (auto simp: setProperty_def)

lemma collectAnswers_lookup:
  "distinct (map header qs) \<Longrightarrow> ''__proto__'' \<notin> set (map header qs) \<Longrightarrow> i < length qs \<Longrightarrow>
   collectAnswers st qs k m (header (qs ! i)) = Some (stepAnswer st (k + i))"
proof (induction qs arbitrary: k m i)
  case Nil
  then show ?case by simp
next
  case (Cons q qs)
  show ?case
  proof (cases i)
    case 0
    with Cons.prems show ?thesis
      by (auto simp: collectAnswers_other setProperty_def)
  next
    case (Suc j)
    with Cons.prems have "collectAnswers st qs (Suc k) (setProperty m (header q) (stepAnswer st k)) (header (qs ! j))
        = Some (stepAnswer st (Suc k + j))"
      by (intro Cons.IH) auto
    with Suc show ?thesis by simp
  qed
qed










subsection \<open>Events on a settled request\<close>

lemma settleRace_settled: "race st c \<noteq> Pending \<Longrightarrow> settleRace c out st = st"
  by (simp add: settleRace_def)

lemma rejectTimeout_settled:
  assumes "race st c \<noteq> Pending"
  shows "pendingQuestions (rejectTimeout c msg st) = pendingQuestions st"
    and "race (rejectTimeout c msg st) = race st"
    and "returned (rejectTimeout c msg st) = returned st"
    and "suspended (rejectTimeout c msg st) = suspended st"
    and "notified (rejectTimeout c msg st) = notified st"
    and "timers (rejectTimeout c msg st) = timers st"
  using assms by (simp_all add: rejectTimeout_def settleRace_def)

lemma timerFires_settled:
  assumes "settled toolId c st"
  shows "sameOutcome st (timerFires c st) \<and> settled toolId c (timerFires c st)"
proof (cases "timers st c")
  case None
  with assms show ?thesis by (simp add: timerFires_def sameOutcome_def)
next
  case (Some x)
  with assms have x: "x = toolId" by (simp add: settled_def)
  let ?st1 = "st\<lparr>timers := (timers st)(c := None),
                 pendingQuestions := (pendingQuestions st)(toolId := None)\<rparr>"
  have tf: "timerFires c st =
      rejectTimeout c ''Question timed out waiting for user response'' ?st1"
    using Some x by (simp add: timerFires_def)
  have r1: "race ?st1 c \<noteq> Pending" using assms by (simp add: settled_def)
  have pq: "(pendingQuestions st)(toolId := None) = pendingQuestions st"
    using assms by (simp add: settled_def fun_upd_idem)
  from assms have "race st c \<noteq> Pending" "pendingQuestions st toolId = None"
    "suspended st c = None" by (simp_all add: settled_def)
  with pq show ?thesis
    unfolding tf sameOutcome_def settled_def
    by (simp add: rejectTimeout_settled)
qed

lemma resume_settled: "suspended st c = None \<Longrightarrow> resume c st = st"
  by (simp add: resume_def)

lemma settled_deliver:
  assumes "settled toolId c st" and "deliver toolId c e st = (r, st')"
  shows "r \<noteq> Some True \<and> sameOutcome st st' \<and> settled toolId c st'"
proof (cases e)
  case (Answer a)
  with assms show ?thesis
    by (auto simp: settled_def sameOutcome_def answerQuestion_def resume_def)
next
  case Cancel
  with assms show ?thesis
    by (auto simp: settled_def sameOutcome_def cancelQuestion_def resume_def)
next
  case Timeout
  from timerFires_settled [OF assms(1)]
  have t: "sameOutcome st (timerFires c st)" "settled toolId c (timerFires c st)" by simp_all
  from t(2) have "resume c (timerFires c st) = timerFires c st"
    by (simp add: settled_def resume_settled)
  with Timeout assms(2) t show ?thesis by auto
qed

lemma settled_inert: "settled toolId c st \<Longrightarrow> inert toolId c es st"
proof (induction es arbitrary: st)
  case Nil
  then show ?case by simp
next
  case (Cons e es)
  obtain r st' where d: "deliver toolId c e st = (r, st')" by (cases "deliver toolId c e st")
  from settled_deliver [OF Cons.prems d] Cons.IH d show ?case by simp
qed

lemma first_deliver:
  assumes "globalQuestionCallback s = Some cb"
    and "AskUserQuestion toolId sessionId questions s = (r0, s0)"
    and "deliver toolId (nextCall s) e s0 = (r1, s1)"
  shows "r0 = None" "pendingQuestions s0 toolId = Some (nextCall s)" "race s0 (nextCall s) = Pending"
    "timers s0 (nextCall s) = Some toolId"
    "r1 \<noteq> Some False" "race s1 (nextCall s) = outcomeOf e" "settled toolId (nextCall s) s1"
    "returned s1 (nextCall s) \<noteq> None"
    "e \<noteq> Timeout \<Longrightarrow> timers s1 (nextCall s) = Some toolId"
  using assms
  by (cases e; auto simp: AskUserQuestion_def Let_def answerQuestion_def cancelQuestion_def
      rejectAnswer_def timerFires_def rejectTimeout_def settleRace_def resolveAnswer_def
      resume_def settled_def outcomeOf_def)+


subsection \<open>Trimming the example texts\<close>

lemma isWhiteSpace_space: "isWhiteSpace CHR '' ''"
  by (simp add: isWhiteSpace_def)

lemma not_isWhiteSpace_x: "\<not> isWhiteSpace CHR ''x''"
  by (simp add: isWhiteSpace_def)

lemma trim_padded: "trim '' x '' = ''x''"
  by (simp add: trim_def isWhiteSpace_space not_isWhiteSpace_x)

lemma trim_blank: "trim ''  '' = []"
  by (simp add: trim_def isWhiteSpace_space)

subsection \<open>Timers, and the example servers\<close>

lemma timers_rejectTimeout: "timers (rejectTimeout c msg st) = timers st"
  by (simp add: rejectTimeout_def settleRace_def)

lemma timers_resume: "timers (resume c st) = timers st"
  by (simp add: resume_def split: option.splits promise.splits)

lemma timers_timerFires: "timers (timerFires c st) c = None"
  by (simp add: timerFires_def timers_rejectTimeout split: option.splits)

lemma readyServer_callback: "globalQuestionCallback readyServer = Some 0"
  by (simp add: readyServer_def setQuestionCallback_def)

lemma readyServer_nextCall: "nextCall readyServer = 0"
  by (simp add: readyServer_def setQuestionCallback_def initialServer_def)

subsection \<open>The example run of the wizard\<close>

lemma example_run:
  "performAll [langQuestion, toolsQuestion] ''ask_1'' exampleActions initialModal = Inr exampleModal"
  by (simp add: exampleActions_def exampleModal_def initialModal_def langQuestion_def
      toolsQuestion_def handleOptionSelect_def handleOtherSelect_def handleOtherInputChange_def
      clickNext_def handleNext_def canProceed_def currentQuestion_def stepAnswers_def
      isLastStep_def OTHER_def Let_def fun_upd_twist)

section \<open>The answer state machine\<close>

text \<open>
  C6 (validation gating). For every state, \<open>canProceed\<close> is false if and only if the
  selection of the current step is empty, or it contains the "other" sentinel and the
  free text of the step trims to the empty string; otherwise it is true. The free text
  of a step that has none yet is the empty string.
\<close>

theorem canProceed_false_iff:
  "\<not> canProceed st \<longleftrightarrow>
     stepAnswers st (currentStep st) = [] \<or>
     (OTHER \<in> set (stepAnswers st (currentStep st)) \<and>
      trim (otherText st (currentStep st)) = [])"
  by (simp add: canProceed_def otherText_def trim_Nil Let_def split: option.splits)

theorem canProceed_false_iff_witness:
  "\<not> canProceed blankModal \<and> canProceed paddedModal \<and> \<not> canProceed initialModal"
  using canProceed_false_iff [of blankModal] canProceed_false_iff [of paddedModal]
    canProceed_false_iff [of initialModal]
  by (simp add: blankModal_def paddedModal_def initialModal_def stepAnswers_def otherText_def
      OTHER_def trim_padded trim_blank)

text \<open>
  C9 (back preserves data). On a step \<open>i > 0\<close>, \<open>handleBack\<close> moves to step \<open>i - 1\<close>; on
  step 0 it leaves the step index as it is; in both cases the selections and the free
  texts of all steps are unchanged.
\<close>

theorem handleBack_preserves_data:
  "(0 < currentStep st \<longrightarrow> currentStep (handleBack st) = currentStep st - 1) \<and>
   (currentStep st = 0 \<longrightarrow> currentStep (handleBack st) = 0) \<and>
   answers (handleBack st) = answers st \<and> otherInputs (handleBack st) = otherInputs st"
  by (simp add: handleBack_def isFirstStep_def)

theorem handleBack_preserves_data_witness:
  "0 < currentStep exampleModal \<and> currentStep (handleBack exampleModal) = 0 \<and>
   answers (handleBack exampleModal) = answers exampleModal \<and>
   otherInputs (handleBack exampleModal) = otherInputs exampleModal \<and>
   currentStep (handleBack initialModal) = 0"
  using handleBack_preserves_data [of exampleModal] handleBack_preserves_data [of initialModal]
  by (simp add: exampleModal_def initialModal_def)

text \<open>
  C7 (other-exclusivity). As stated the claim fails for a regular option that is
  already selected: \<open>handleOptionSelect\<close> then removes that option and keeps the
  sentinel. In the state reached by the example run, with \<open>X\<close>, \<open>Y\<close> and "other"
  selected, a click on \<open>X\<close> leaves \<open>Y\<close> and the sentinel.
\<close>

theorem deselect_keeps_other_counterexample:
  "performAll [langQuestion, toolsQuestion] ''ask_1'' exampleActions initialModal = Inr exampleModal \<and>
   currentQuestion [langQuestion, toolsQuestion] exampleModal = Some toolsQuestion \<and>
   multiSelect toolsQuestion \<and> ''X'' \<noteq> OTHER \<and>
   handleOptionSelect [langQuestion, toolsQuestion] ''X'' exampleModal =
     Inr (exampleModal\<lparr>answers := (answers exampleModal)(1 \<mapsto> [''Y'', ''__other__''])\<rparr>) \<and>
   OTHER \<in> set [''Y'', ''__other__'']"
  using example_run
  by (simp add: currentQuestion_def handleOptionSelect_def exampleModal_def toolsQuestion_def
      stepAnswers_def OTHER_def Let_def)

text \<open>
  C7, amended. On a multi-select question, for every step state: selecting a regular
  option that is not selected yet removes the sentinel from the step's selection (and
  adds the option); selecting "other" never removes a selected regular option, and keeps
  their order.
\<close>

theorem other_exclusivity:
  assumes "currentQuestion questions st = Some q" and "multiSelect q"
  shows "(l \<noteq> OTHER \<and> l \<notin> set (stepAnswers st (currentStep st)) \<longrightarrow>
           (\<exists>st'. handleOptionSelect questions l st = Inr st' \<and>
                  OTHER \<notin> set (stepAnswers st' (currentStep st)) \<and>
                  l \<in> set (stepAnswers st' (currentStep st)))) \<and>
         (\<exists>st'. handleOtherSelect questions st = Inr st' \<and>
                filter (\<lambda>a. a \<noteq> OTHER) (stepAnswers st' (currentStep st)) =
                filter (\<lambda>a. a \<noteq> OTHER) (stepAnswers st (currentStep st)))"
  using assms
  by (auto simp: handleOptionSelect_def handleOtherSelect_def stepAnswers_def Let_def)

theorem other_exclusivity_witness:
  "currentQuestion [langQuestion, toolsQuestion] exampleModal = Some toolsQuestion \<and>
   multiSelect toolsQuestion \<and> ''W'' \<noteq> OTHER \<and> ''W'' \<notin> set (stepAnswers exampleModal 1) \<and>
   OTHER \<in> set (stepAnswers exampleModal 1) \<and>
   (\<exists>st'. handleOptionSelect [langQuestion, toolsQuestion] ''W'' exampleModal = Inr st' \<and>
          OTHER \<notin> set (stepAnswers st' 1) \<and> ''W'' \<in> set (stepAnswers st' 1)) \<and>
   (\<exists>st'. handleOtherSelect [langQuestion, toolsQuestion] exampleModal = Inr st' \<and>
          filter (\<lambda>a. a \<noteq> OTHER) (stepAnswers st' 1) = [''X'', ''Y''])"
proof -
  have h1: "currentQuestion [langQuestion, toolsQuestion] exampleModal = Some toolsQuestion"
    by (simp add: currentQuestion_def exampleModal_def)
  have h2: "multiSelect toolsQuestion" by (simp add: toolsQuestion_def)
  have h3: "''W'' \<noteq> OTHER \<and> ''W'' \<notin> set (stepAnswers exampleModal 1) \<and>
            OTHER \<in> set (stepAnswers exampleModal 1)"
    by (simp add: OTHER_def exampleModal_def stepAnswers_def)
  have c: "currentStep exampleModal = 1" by (simp add: exampleModal_def)
  have f: "filter (\<lambda>a. a \<noteq> OTHER) (stepAnswers exampleModal 1) = [''X'', ''Y'']"
    by (simp add: OTHER_def exampleModal_def stepAnswers_def)
  from other_exclusivity [OF h1 h2, of "''W''"] h1 h2 h3 show ?thesis
    unfolding c f by blast
qed





text \<open>
  C10 (no trimming at aggregation). As stated the claim fails for a batch in which a
  later question has the same header: the value of the earlier step, and with it the
  free text, is replaced. After the free text \<open>" x "\<close> on the first of two questions
  with the header \<open>Lang\<close> and the option \<open>B\<close> on the second, the submitted answers are
  \<open>{Lang: B}\<close>.
\<close>

theorem padded_text_lost_counterexample:
  "performAll sameHeaderQuestions ''ask_1'' paddedSameHeaderActions initialModal =
     Inr paddedSameHeaderModal \<and>
   OTHER \<in> set (stepAnswers paddedSameHeaderModal 0) \<and>
   otherInputs paddedSameHeaderModal 0 = Some '' x '' \<and> trim '' x '' = ''x'' \<and>
   canProceed paddedSameHeaderModal \<and> isLastStep sameHeaderQuestions paddedSameHeaderModal \<and>
   handleNext sameHeaderQuestions ''ask_1'' paddedSameHeaderModal =
     (paddedSameHeaderModal, Some (''ask_1'', [''Lang'' \<mapsto> ''B'']))"
  by (simp add: sameHeaderQuestions_def paddedSameHeaderModal_def paddedSameHeaderActions_def
      initialModal_def langQuestion_def handleOptionSelect_def handleOtherSelect_def
      handleOtherInputChange_def clickNext_def handleNext_def canProceed_def currentQuestion_def
      stepAnswers_def isLastStep_def OTHER_def Let_def fun_upd_twist trim_padded
      finalAnswers_def setProperty_def stepAnswer_def answerList_def)

text \<open>
  C10, amended. If the selection of a step contains the sentinel and the step's free
  text \<open>t\<close> trims to a non-empty string, then \<open>t\<close> itself is an element of the step's
  answer list, it occurs unchanged (untrimmed) in the step's joined value, and it is that
  value when the sentinel is the only selection; and for every batch whose headers are
  pairwise distinct and are not \<open>__proto__\<close>, submitting on the last step forwards that
  joined value under the header of the step's question. Trimming occurs in
  \<open>canProceed\<close> only.
\<close>

theorem other_text_verbatim:
  assumes "OTHER \<in> set (stepAnswers st idx)" and "otherInputs st idx = Some t"
    and "trim t \<noteq> []"
  shows "t \<in> set (answerList st idx) \<and> sublist t (stepAnswer st idx) \<and>
         (stepAnswers st idx = [OTHER] \<longrightarrow> stepAnswer st idx = t) \<and>
         (distinct (map header questions) \<and> ''__proto__'' \<notin> set (map header questions) \<and>
          idx < length questions \<and> isLastStep questions st \<longrightarrow>
            (\<exists>fa. handleNext questions toolId st = (st, Some (toolId, fa)) \<and>
                  fa (header (questions ! idx)) = Some (stepAnswer st idx)))"
proof -
  have ne: "t \<noteq> []" using assms(3) by (rule trim_nonempty)
  have ot: "otherText st idx = t" using assms(2) by (simp add: otherText_def)
  have mem: "t \<in> set (answerList st idx)"
    using assms(1) ne ot by (force simp: answerList_def)
  have one: "stepAnswers st idx = [OTHER] \<longrightarrow> stepAnswer st idx = t"
    using ne ot by (simp add: stepAnswer_def answerList_def)
  from mem have sub: "sublist t (stepAnswer st idx)"
    unfolding stepAnswer_def by (rule join_single_mem)
  have submit: "\<exists>fa. handleNext questions toolId st = (st, Some (toolId, fa)) \<and>
                  fa (header (questions ! idx)) = Some (stepAnswer st idx)"
    if h: "distinct (map header questions)" "''__proto__'' \<notin> set (map header questions)"
      "idx < length questions" "isLastStep questions st"
  proof -
    have "handleNext questions toolId st = (st, Some (toolId, finalAnswers questions st))"
      using h(4) by (simp add: handleNext_def)
    moreover have "finalAnswers questions st (header (questions ! idx)) = Some (stepAnswer st idx)"
      using h(1,2,3) by (simp add: finalAnswers_def collectAnswers_lookup)
    ultimately show ?thesis by blast
  qed
  from mem sub one submit show ?thesis by blast
qed

theorem other_text_verbatim_witness:
  "OTHER \<in> set (stepAnswers paddedModal 0) \<and> otherInputs paddedModal 0 = Some '' x '' \<and>
   trim '' x '' = ''x'' \<and> canProceed paddedModal \<and>
   distinct (map header [langQuestion]) \<and> ''__proto__'' \<notin> set (map header [langQuestion]) \<and>
   isLastStep [langQuestion] paddedModal \<and>
   (\<exists>fa. handleNext [langQuestion] ''ask_1'' paddedModal = (paddedModal, Some (''ask_1'', fa)) \<and>
         fa ''Lang'' = Some '' x '') \<and>
   handleNext [langQuestion] ''ask_1'' paddedModal =
     (paddedModal, Some (''ask_1'', [''Lang'' \<mapsto> '' x '']))"
proof -
  have h1: "OTHER \<in> set (stepAnswers paddedModal 0)"
    and h1': "stepAnswers paddedModal 0 = [OTHER]"
    by (simp_all add: paddedModal_def stepAnswers_def OTHER_def)
  have h2: "otherInputs paddedModal 0 = Some '' x ''" by (simp add: paddedModal_def)
  have h3: "trim '' x '' \<noteq> []" by (simp add: trim_padded)
  have cp: "canProceed paddedModal"
    by (simp add: canProceed_def paddedModal_def stepAnswers_def OTHER_def trim_padded)
  have g: "distinct (map header [langQuestion])"
    "''__proto__'' \<notin> set (map header [langQuestion])"
    "(0::nat) < length [langQuestion]" "isLastStep [langQuestion] paddedModal"
    by (simp_all add: langQuestion_def isLastStep_def paddedModal_def)
  note r = other_text_verbatim [OF h1 h2 h3, of "[langQuestion]" "''ask_1''"]
  from r h1' have v: "stepAnswer paddedModal 0 = '' x ''" by simp
  from r g obtain fa where fa:
    "handleNext [langQuestion] ''ask_1'' paddedModal = (paddedModal, Some (''ask_1'', fa))"
    "fa (header ([langQuestion] ! 0)) = Some (stepAnswer paddedModal 0)"
    by blast
  from fa(2) v have l: "fa ''Lang'' = Some '' x ''" by (simp add: langQuestion_def)
  have "handleNext [langQuestion] ''ask_1'' paddedModal =
      (paddedModal, Some (''ask_1'', [''Lang'' \<mapsto> stepAnswer paddedModal 0]))"
    by (simp add: handleNext_def isLastStep_def finalAnswers_def setProperty_def
        langQuestion_def paddedModal_def)
  with v have e: "handleNext [langQuestion] ''ask_1'' paddedModal =
      (paddedModal, Some (''ask_1'', [''Lang'' \<mapsto> '' x '']))" by simp
  from h1 h2 cp g fa(1) l e show ?thesis by (simp add: trim_padded)
qed





section \<open>The coordinator\<close>

text \<open>
  C1 (at-most-once settlement). Let an invocation of the handler register the id
  \<open>toolId\<close>. In every sequence \<open>e # es\<close> of answers, cancellations and timer firings for
  that request, the first event \<open>e\<close> removes the table entry and settles the suspended
  invocation with the outcome of \<open>e\<close>, and every later event is a no-op: \<open>answerQuestion\<close>
  and \<open>cancelQuestion\<close> return \<open>false\<close>, and the table and all outcomes stay as they are.
\<close>

theorem at_most_once_settlement:
  assumes "globalQuestionCallback s = Some callback"
    and "AskUserQuestion toolId sessionId questions s = (r0, s0)"
    and "deliver toolId (nextCall s) e s0 = (r1, s1)"
  shows "pendingQuestions s0 toolId = Some (nextCall s) \<and> race s0 (nextCall s) = Pending \<and>
         r1 \<noteq> Some False \<and> pendingQuestions s1 toolId = None \<and>
         race s1 (nextCall s) = outcomeOf e \<and> returned s1 (nextCall s) \<noteq> None \<and>
         inert toolId (nextCall s) es s1"
proof -
  note f = first_deliver [OF assms]
  from f(7) have "inert toolId (nextCall s) es s1" by (rule settled_inert)
  moreover from f(7) have "pendingQuestions s1 toolId = None" by (simp add: settled_def)
  ultimately show ?thesis using f(2,3,5,6,8) by blast
qed

theorem at_most_once_settlement_witness:
  "globalQuestionCallback readyServer = Some 0 \<and>
   pendingQuestions askedServer ''ask_1'' = Some 0 \<and>
   pendingQuestions answeredServer ''ask_1'' = None \<and>
   race answeredServer 0 = Fulfilled [(''Lang'', ''A'')] \<and>
   returned answeredServer 0 \<noteq> None \<and>
   inert ''ask_1'' 0 [Cancel, Timeout, Answer [(''Lang'', ''B'')], Cancel] answeredServer"
proof -
  have h2: "AskUserQuestion ''ask_1'' ''session-1'' [langQuestion] readyServer =
      (fst (AskUserQuestion ''ask_1'' ''session-1'' [langQuestion] readyServer), askedServer)"
    by (simp add: askedServer_def)
  have h3: "deliver ''ask_1'' (nextCall readyServer) (Answer [(''Lang'', ''A'')]) askedServer =
      (fst (deliver ''ask_1'' 0 (Answer [(''Lang'', ''A'')]) askedServer), answeredServer)"
    by (simp add: answeredServer_def readyServer_nextCall)
  from at_most_once_settlement [OF readyServer_callback h2 h3,
      of "[Cancel, Timeout, Answer [(''Lang'', ''B'')], Cancel]"]
  show ?thesis
    using readyServer_callback by (simp add: readyServer_nextCall outcomeOf_def)
qed

text \<open>
  C2 (no leak). As stated the claim fails in its second half: the timer is never
  disarmed. After the answer has resolved the invocation, the timer is still scheduled.
\<close>

theorem timer_left_armed_counterexample:
  "returned answeredServer 0 =
     Some \<lparr>resultText = ''User'' @ [CHR 0x27] @ ''s answers:'' @ [CHR 0x0A] @ ''Lang: A'',
           isError = False\<rparr> \<and>
   pendingQuestions answeredServer ''ask_1'' = None \<and>
   timers answeredServer 0 = Some ''ask_1''"
  by (simp add: answeredServer_def askedServer_def readyServer_def setQuestionCallback_def
      initialServer_def AskUserQuestion_def answerQuestion_def resolveAnswer_def settleRace_def
      resume_def formattedAnswers_def Let_def)

text \<open>
  C2, amended. After an invocation has been resolved by an answer, a cancellation or
  its timeout, the table no longer contains the id. On the timeout path the timer has
  fired and is gone; on the answer and the cancel path the timer is not disarmed: it is
  still scheduled when the invocation has resolved.
\<close>

theorem no_leak_in_table:
  assumes "globalQuestionCallback s = Some callback"
    and "AskUserQuestion toolId sessionId questions s = (r0, s0)"
    and "deliver toolId (nextCall s) e s0 = (r1, s1)"
  shows "returned s1 (nextCall s) \<noteq> None \<and> suspended s1 (nextCall s) = None \<and>
         pendingQuestions s1 toolId = None \<and>
         (e = Timeout \<longrightarrow> timers s1 (nextCall s) = None) \<and>
         (e \<noteq> Timeout \<longrightarrow> timers s0 (nextCall s) = Some toolId \<and>
                               timers s1 (nextCall s) = Some toolId)"
proof -
  note f = first_deliver [OF assms]
  from f(7) have s: "suspended s1 (nextCall s) = None" "pendingQuestions s1 toolId = None"
    by (simp_all add: settled_def)
  have t: "e = Timeout \<longrightarrow> timers s1 (nextCall s) = None"
    using assms(3) by (auto simp: timers_resume timers_timerFires)
  show ?thesis using f(4,8,9) s t by simp
qed

theorem no_leak_in_table_witness:
  "globalQuestionCallback readyServer = Some 0 \<and>
   returned answeredServer 0 \<noteq> None \<and> suspended answeredServer 0 = None \<and>
   pendingQuestions answeredServer ''ask_1'' = None \<and>
   timers askedServer 0 = Some ''ask_1'' \<and> timers answeredServer 0 = Some ''ask_1''"
proof -
  have h2: "AskUserQuestion ''ask_1'' ''session-1'' [langQuestion] readyServer =
      (fst (AskUserQuestion ''ask_1'' ''session-1'' [langQuestion] readyServer), askedServer)"
    by (simp add: askedServer_def)
  have h3: "deliver ''ask_1'' (nextCall readyServer) (Answer [(''Lang'', ''A'')]) askedServer =
      (fst (deliver ''ask_1'' 0 (Answer [(''Lang'', ''A'')]) askedServer), answeredServer)"
    by (simp add: answeredServer_def readyServer_nextCall)
  from no_leak_in_table [OF readyServer_callback h2 h3]
  show ?thesis
    using readyServer_callback by (simp add: readyServer_nextCall)
qed


text \<open>
  C4 (identifier collision). As stated the claim fails: a second invocation with an id
  that is in the table returns no error; it suspends like any other, and the entry now
  belongs to it.
\<close>

theorem collision_overwrites_counterexample:
  "pendingQuestions askedServer ''ask_1'' = Some 0 \<and>
   fst (AskUserQuestion ''ask_1'' ''session-2'' [toolsQuestion] askedServer) = None \<and>
   pendingQuestions (snd (AskUserQuestion ''ask_1'' ''session-2'' [toolsQuestion] askedServer))
     ''ask_1'' = Some 1"
  by (simp add: askedServer_def readyServer_def setQuestionCallback_def
      initialServer_def AskUserQuestion_def Let_def)

text \<open>
  C4, amended. With a callback registered, an invocation whose id is already in the
  table does not fail: \<open>pendingQuestions.set\<close> replaces the entry of that id by the
  continuations of the new invocation, which then suspends; no other entry changes.
\<close>

theorem collision_replaces_entry:
  assumes "globalQuestionCallback s = Some callback"
    and "pendingQuestions s toolId = Some c0" and "c0 < nextCall s"
  shows "\<exists>s'. AskUserQuestion toolId sessionId questions s = (None, s') \<and>
              pendingQuestions s' = (pendingQuestions s)(toolId \<mapsto> nextCall s) \<and>
              pendingQuestions s' toolId \<noteq> Some c0 \<and>
              suspended s' (nextCall s) = Some toolId"
  using assms by (simp add: AskUserQuestion_def Let_def)

theorem collision_replaces_entry_witness:
  "globalQuestionCallback askedServer = Some 0 \<and>
   pendingQuestions askedServer ''ask_1'' = Some 0 \<and> 0 < nextCall askedServer \<and>
   (\<exists>s'. AskUserQuestion ''ask_1'' ''session-2'' [toolsQuestion] askedServer = (None, s') \<and>
         pendingQuestions s' ''ask_1'' = Some 1 \<and> suspended s' 1 = Some ''ask_1'')"
proof -
  have h1: "globalQuestionCallback askedServer = Some 0"
    and h2: "pendingQuestions askedServer ''ask_1'' = Some 0"
    and h3: "0 < nextCall askedServer" and n: "nextCall askedServer = 1"
    by (simp_all add: askedServer_def readyServer_def setQuestionCallback_def
        initialServer_def AskUserQuestion_def Let_def)
  from collision_replaces_entry [OF h1 h2 h3, of "''session-2''" "[toolsQuestion]"]
  show ?thesis using h1 h2 h3 unfolding n by auto
qed

text \<open>
  C5 (no channel). When no callback is registered, the handler returns the error
  result \<open>Error: Question callback not configured\<close> at once, and the state is the one
  before the call: no table entry, no timer and no suspended invocation is added.
\<close>

theorem no_callback_fails_immediately:
  assumes "globalQuestionCallback s = None"
  shows "AskUserQuestion toolId sessionId questions s =
           (Some \<lparr>resultText = ''Error: Question callback not configured'', isError = True\<rparr>, s)"
  using assms by (simp add: AskUserQuestion_def)

theorem no_callback_fails_immediately_witness:
  "globalQuestionCallback initialServer = None \<and>
   AskUserQuestion ''ask_1'' ''session-1'' [langQuestion] initialServer =
     (Some \<lparr>resultText = ''Error: Question callback not configured'', isError = True\<rparr>,
      initialServer) \<and>
   pendingQuestions initialServer = Map.empty \<and> timers initialServer = Map.empty \<and>
   suspended initialServer = Map.empty"
proof -
  have h: "globalQuestionCallback initialServer = None" by (simp add: initialServer_def)
  from no_callback_fails_immediately [OF h, of "''ask_1''" "''session-1''" "[langQuestion]"]
  show ?thesis using h by (simp add: initialServer_def)
qed


end
